theory Spec2Isabelle
  imports Complex_Main "HOL-Library.Word"
begin

section \<open>The vendor-format adapter of \<^verbatim>\<open>openai/openai.go\<close>\<close>

text \<open>
  Conventions of the embedding.
  \<^item> Go's \<^verbatim>\<open>int\<close> and \<^verbatim>\<open>int64\<close> are 64-bit words (the 64-bit targets of the
    program); \<open>+\<close> wraps around as Go's does.
  \<^item> \<^verbatim>\<open>float64\<close> is idealised as \<open>real\<close>: rounding is not modelled. The only
    float arithmetic of the file is the rescaling \<open>(v + 2.0) / 4.0\<close> of the two penalties;
    no theorem below rests on how it rounds. The range is modelled where the program
    depends on it: a JSON number too large for a \<^verbatim>\<open>float64\<close> is refused by the decoder.
  \<^item> \<^verbatim>\<open>string\<close> and \<^verbatim>\<open>[]byte\<close> are \<open>string\<close>, a list of bytes.
  \<^item> A pointer field (\<^verbatim>\<open>*int\<close>, \<^verbatim>\<open>*float64\<close>, \<^verbatim>\<open>*string\<close>) is an \<open>option\<close>,
    \<open>None\<close> for \<^verbatim>\<open>nil\<close>. A slice is a list; the \<^verbatim>\<open>nil\<close> slice is the empty list.
  \<^item> An \<^verbatim>\<open>error\<close> is a value of \<open>error\<close>; \<open>None\<close> of \<open>error option\<close> is the
    \<^verbatim>\<open>nil\<close> error.
\<close>

type_synonym go_int = "64 word"
type_synonym int64 = "64 word"
type_synonym float64 = real

subsection \<open>Dynamically typed values\<close>

text \<open>
  A value of \<^verbatim>\<open>interface{}\<close> (\<^verbatim>\<open>any\<close>), by its dynamic type: what the JSON decoder
  stores in one (\<^verbatim>\<open>nil\<close>, \<^verbatim>\<open>bool\<close>, \<^verbatim>\<open>float64\<close>, \<^verbatim>\<open>string\<close>,
  \<^verbatim>\<open>[]interface{}\<close>, \<^verbatim>\<open>map[string]interface{}\<close>) and what \<^verbatim>\<open>fromRequest\<close> stores
  in the options map (\<^verbatim>\<open>int\<close>, \<^verbatim>\<open>float64\<close>, \<^verbatim>\<open>[]string\<close>).
\<close>

datatype any =
    ANil
  | ABool bool
  | AInt go_int
  | AFloat64 float64
  | AString string
  | AStrings "string list"
  | ASlice "any list"
  | AMap "(string \<times> any) list"

subsection \<open>The vendor types\<close>

record Error =
  Message :: string
  Type :: string
  Param :: any
  Code :: "string option"

record ErrorResponse =
  Error :: Error

record Message =
  Role :: string
  Content :: string

record Choice =
  Index :: go_int
  Message :: Message
  FinishReason :: "string option"

record ChunkChoice =
  Index :: go_int
  Delta :: Message
  FinishReason :: "string option"

record Usage =
  PromptTokens :: go_int
  CompletionTokens :: go_int
  TotalTokens :: go_int

record ResponseFormat =
  Type :: string

record Request =
  Model :: string
  Messages :: "Message list"
  Stream :: bool
  MaxTokens :: "go_int option"
  Seed :: "go_int option"
  Stop :: any
  Temperature :: "float64 option"
  FrequencyPenalty :: "float64 option"
  PresencePenalty :: "float64 option"
  TopP :: "float64 option"
  ResponseFormat :: "ResponseFormat option"

record Completion =
  Id :: string
  Object :: string
  Created :: int64
  Model :: string
  SystemFingerprint :: string
  Choices :: "Choice list"
  Usage :: Usage

record Chunk =
  Id :: string
  Object :: string
  Created :: int64
  Model :: string
  SystemFingerprint :: string
  Choices :: "ChunkChoice list"

subsection \<open>The native types\<close>

text \<open>
  Modelled from the spec: the declarations of package \<^verbatim>\<open>api\<close> (\<^verbatim>\<open>api.Message\<close>,
  \<^verbatim>\<open>api.ChatRequest\<close>, \<^verbatim>\<open>api.ChatResponse\<close>) are not among the sources. The records
  have the fields that \<^verbatim>\<open>openai.go\<close> reads and writes, with the types it uses them at.
  \<^verbatim>\<open>CreatedAt\<close> is the instant by its Unix time, which is all the code reads of it
  (\<^verbatim>\<open>r.CreatedAt.Unix()\<close>); \<^verbatim>\<open>Stream\<close> is a \<^verbatim>\<open>*bool\<close>.
\<close>

record api_Message =
  Role :: string
  Content :: string

record api_ChatRequest =
  Model :: string
  Messages :: "api_Message list"
  Format :: string
  Options :: "string \<rightharpoonup> any"
  Stream :: "bool option"

record api_ChatResponse =
  Model :: string
  CreatedAt :: int64
  Message :: api_Message
  Done :: bool
  PromptEvalCount :: go_int
  EvalCount :: go_int

subsection \<open>\<^verbatim>\<open>NewError\<close>, \<^verbatim>\<open>toCompletion\<close>, \<^verbatim>\<open>toChunk\<close>\<close>

definition NewError :: "int \<Rightarrow> string \<Rightarrow> ErrorResponse" where
  "NewError code message =
     (let etype = (if code = 400 then ''invalid_request_error''
                   else if code = 404 then ''not_found_error''
                   else ''api_error'')
      in \<lparr>Error = \<lparr>Error.Message = message, Type = etype, Param = ANil, Code = None\<rparr>\<rparr>)"

text \<open>The function literal that both translations apply to \<^verbatim>\<open>r.Done\<close>.\<close>

definition finish_reason :: "bool \<Rightarrow> string option" where
  "finish_reason done = (if done then Some ''stop'' else None)"

definition toCompletion :: "string \<Rightarrow> api_ChatResponse \<Rightarrow> Completion" where
  "toCompletion id' r =
     \<lparr>Completion.Id = id',
      Object = ''chat.completion'',
      Created = CreatedAt r,
      Model = api_ChatResponse.Model r,
      SystemFingerprint = ''fp_ollama'',
      Choices = [\<lparr>Choice.Index = 0,
                  Message = \<lparr>Message.Role = api_Message.Role (api_ChatResponse.Message r),
                             Content = api_Message.Content (api_ChatResponse.Message r)\<rparr>,
                  FinishReason = finish_reason (Done r)\<rparr>],
      Usage = \<lparr>PromptTokens = PromptEvalCount r,
               CompletionTokens = EvalCount r,
               TotalTokens = PromptEvalCount r + EvalCount r\<rparr>\<rparr>"

text \<open>\<open>now\<close> is what \<^verbatim>\<open>time.Now().Unix()\<close> returns when \<^verbatim>\<open>toChunk\<close> runs.\<close>

definition toChunk :: "int64 \<Rightarrow> string \<Rightarrow> api_ChatResponse \<Rightarrow> Chunk" where
  "toChunk now id' r =
     \<lparr>Chunk.Id = id',
      Object = ''chat.completion.chunk'',
      Created = now,
      Model = api_ChatResponse.Model r,
      SystemFingerprint = ''fp_ollama'',
      Choices = [\<lparr>ChunkChoice.Index = 0,
                  Delta = \<lparr>Message.Role = ''assistant'',
                           Content = api_Message.Content (api_ChatResponse.Message r)\<rparr>,
                  FinishReason = finish_reason (Done r)\<rparr>]\<rparr>"

subsection \<open>\<^verbatim>\<open>fromRequest\<close>\<close>

text \<open>
  The loop over a \<^verbatim>\<open>[]interface{}\<close> stop value: \<open>stops\<close> is the slice built so far,
  and an element is appended when its dynamic type is \<^verbatim>\<open>string\<close>.
\<close>

fun collect_stops :: "string list \<Rightarrow> any list \<Rightarrow> string list" where
  "collect_stops stops [] = stops"
| "collect_stops stops (s # rest) =
     collect_stops (case s of AString str \<Rightarrow> stops @ [str] | _ \<Rightarrow> stops) rest"

definition fromRequest :: "Request \<Rightarrow> api_ChatRequest" where
  "fromRequest r =
     (let messages = map (\<lambda>msg. \<lparr>api_Message.Role = Message.Role msg,
                                  Content = Message.Content msg\<rparr>) (Request.Messages r);
          options = Map.empty;
          options = (case Stop r of
                       AString stop \<Rightarrow> options(''stop'' \<mapsto> AStrings [stop])
                     | ASlice stop \<Rightarrow> options(''stop'' \<mapsto> AStrings (collect_stops [] stop))
                     | _ \<Rightarrow> options);
          options = (case MaxTokens r of
                       Some n \<Rightarrow> options(''num_predict'' \<mapsto> AInt n)
                     | None \<Rightarrow> options);
          options = (case Temperature r of
                       Some t \<Rightarrow> options(''temperature'' \<mapsto> AFloat64 t)
                     | None \<Rightarrow> options);
          options = (case Seed r of
                       Some n \<Rightarrow> options(''seed'' \<mapsto> AInt n, ''temperature'' \<mapsto> AFloat64 0.0)
                     | None \<Rightarrow> options);
          options = (case FrequencyPenalty r of
                       Some v \<Rightarrow> options(''frequency_penalty'' \<mapsto> AFloat64 ((v + 2.0) / 4.0))
                     | None \<Rightarrow> options);
          options = (case PresencePenalty r of
                       Some v \<Rightarrow> options(''presence_penalty'' \<mapsto> AFloat64 ((v + 2.0) / 4.0))
                     | None \<Rightarrow> options);
          options = (case TopP r of
                       Some p \<Rightarrow> options(''top_p'' \<mapsto> AFloat64 p)
                     | None \<Rightarrow> options);
          format = (case Request.ResponseFormat r of
                      Some rf \<Rightarrow> if ResponseFormat.Type rf = ''json_object'' then ''json'' else ''''
                    | None \<Rightarrow> '''')
      in \<lparr>api_ChatRequest.Model = Request.Model r,
          Messages = messages,
          Format = format,
          Options = options,
          Stream = Some (Request.Stream r)\<rparr>)"

subsection \<open>Decoding the request body into \<^verbatim>\<open>Request\<close>\<close>

text \<open>
  \<^verbatim>\<open>c.ShouldBindJSON(&req)\<close> hands the body to \<^verbatim>\<open>encoding/json\<close>, which fills the
  struct by the names in its field tags. A JSON text is modelled after tokenising, as a
  tree. A number keeps whether its literal is an integer literal (\<open>JInt\<close>, by value) or
  has a fraction or an exponent (\<open>JFrac\<close>, by value): only the former decodes into an
  \<^verbatim>\<open>int\<close>. An object is the list of its members in the order of the text.
\<close>

datatype json =
    JNull
  | JBool bool
  | JInt int
  | JFrac real
  | JString string
  | JArray "json list"
  | JObject "(string \<times> json) list"

text \<open>
  \<open>UnmarshalTypeError v f\<close>: the value \<open>v\<close> does not fit the Go type of field \<open>f\<close>.
  The other errors come from outside the file and carry their text.
\<close>

datatype error =
    SyntaxError string
  | UnmarshalTypeError json string
  | MarshalError string
  | WriteError string

text \<open>
  A number decodes into a \<^verbatim>\<open>float64\<close> through \<^verbatim>\<open>strconv.ParseFloat\<close>, which fails
  on a value that rounds to an infinity: one at least half a unit in the last place
  above the largest \<^verbatim>\<open>float64\<close>, \<open>2^1024 - 2^971\<close>. A value too small to represent is
  no error.
\<close>

definition float64_fits :: "real \<Rightarrow> bool" where
  "float64_fits x = (\<bar>x\<bar> < 2 ^ 1024 - 2 ^ 970)"

text \<open>
  What the decoder stores in an \<^verbatim>\<open>interface{}\<close> (the field \<open>f\<close>): every number as a
  \<^verbatim>\<open>float64\<close>, an array as a \<^verbatim>\<open>[]interface{}\<close>, an object as a map, at any depth. A
  number that does not fit is the error.
\<close>

fun to_any :: "string \<Rightarrow> json \<Rightarrow> error + any"
  and to_anys :: "string \<Rightarrow> json list \<Rightarrow> error + any list"
  and to_entries :: "string \<Rightarrow> (string \<times> json) list \<Rightarrow> error + (string \<times> any) list" where
  "to_any f JNull = Inr ANil"
| "to_any f (JBool b) = Inr (ABool b)"
| "to_any f (JInt n) =
     (if float64_fits (of_int n) then Inr (AFloat64 (of_int n))
      else Inl (UnmarshalTypeError (JInt n) f))"
| "to_any f (JFrac x) =
     (if float64_fits x then Inr (AFloat64 x) else Inl (UnmarshalTypeError (JFrac x) f))"
| "to_any f (JString s) = Inr (AString s)"
| "to_any f (JArray vs) = map_sum id ASlice (to_anys f vs)"
| "to_any f (JObject ms) = map_sum id AMap (to_entries f ms)"
| "to_anys f [] = Inr []"
| "to_anys f (v # vs) =
     (case to_any f v of
        Inl e \<Rightarrow> Inl e
      | Inr a \<Rightarrow> (case to_anys f vs of Inl e \<Rightarrow> Inl e | Inr as \<Rightarrow> Inr (a # as)))"
| "to_entries f [] = Inr []"
| "to_entries f ((k, v) # ms) =
     (case to_any f v of
        Inl e \<Rightarrow> Inl e
      | Inr a \<Rightarrow> (case to_entries f ms of Inl e \<Rightarrow> Inl e | Inr as \<Rightarrow> Inr ((k, a) # as)))"

text \<open>
  A member is stored in the field whose name equals its key, exactly or up to Unicode
  case folding. The names of the fields are ASCII, and the characters that fold to an
  ASCII letter are the letter in its other case, the long s (U+017F, the bytes
  \<open>C5 BF\<close> in UTF-8), which folds to \<open>s\<close>, and the Kelvin sign (U+212A, the bytes
  \<open>E2 84 AA\<close>), which folds to \<open>k\<close>. \<open>foldName\<close> is the folded name, a byte for each
  character: a letter in upper case, the two signs as \<open>S\<close> and \<open>K\<close>, every other byte
  as it is. \<open>upper\<close> is the byte of a character with a lower-case letter turned into
  upper case.
\<close>

definition upper :: "char \<Rightarrow> nat" where
  "upper c = (let n = of_char c in if 97 \<le> n \<and> n \<le> 122 then n - 32 else n)"

fun foldName :: "string \<Rightarrow> nat list" where
  "foldName [] = []"
| "foldName (c # cs) =
     (case cs of
        [] \<Rightarrow> [upper c]
      | c1 # cs1 \<Rightarrow>
          if of_char c = (197 :: nat) \<and> of_char c1 = (191 :: nat) then 83 # foldName cs1
          else
            (case cs1 of
               [] \<Rightarrow> upper c # foldName cs
             | c2 # cs2 \<Rightarrow>
                 if of_char c = (226 :: nat) \<and> of_char c1 = (132 :: nat) \<and>
                    of_char c2 = (170 :: nat)
                 then 75 # foldName cs2
                 else upper c # foldName cs))"

definition names :: "string \<Rightarrow> string \<Rightarrow> bool" where
  "names key field = (foldName key = foldName field)"

text \<open>
  The decoders of the field types. Each takes the field's name (for the error), the
  field's current value where \<^verbatim>\<open>null\<close> leaves it alone, and the member's value.
  \<^verbatim>\<open>null\<close> sets a pointer, a slice or an interface to \<^verbatim>\<open>nil\<close> and has no effect on
  a string, a bool or a struct.
\<close>

definition dec_string :: "string \<Rightarrow> string \<Rightarrow> json \<Rightarrow> error + string" where
  "dec_string f cur v =
     (case v of JString s \<Rightarrow> Inr s | JNull \<Rightarrow> Inr cur | _ \<Rightarrow> Inl (UnmarshalTypeError v f))"

definition dec_bool :: "string \<Rightarrow> bool \<Rightarrow> json \<Rightarrow> error + bool" where
  "dec_bool f cur v =
     (case v of JBool b \<Rightarrow> Inr b | JNull \<Rightarrow> Inr cur | _ \<Rightarrow> Inl (UnmarshalTypeError v f))"

definition dec_int_ptr :: "string \<Rightarrow> json \<Rightarrow> error + go_int option" where
  "dec_int_ptr f v =
     (case v of
        JInt n \<Rightarrow> if - (2 ^ 63) \<le> n \<and> n < 2 ^ 63 then Inr (Some (word_of_int n))
                  else Inl (UnmarshalTypeError v f)
      | JNull \<Rightarrow> Inr None
      | _ \<Rightarrow> Inl (UnmarshalTypeError v f))"

definition dec_float64_ptr :: "string \<Rightarrow> json \<Rightarrow> error + float64 option" where
  "dec_float64_ptr f v =
     (case v of
        JInt n \<Rightarrow> if float64_fits (of_int n) then Inr (Some (of_int n))
                  else Inl (UnmarshalTypeError v f)
      | JFrac x \<Rightarrow> if float64_fits x then Inr (Some x) else Inl (UnmarshalTypeError v f)
      | JNull \<Rightarrow> Inr None
      | _ \<Rightarrow> Inl (UnmarshalTypeError v f))"

text \<open>
  An object is decoded into a struct member by member, in the order of the text, each
  member updating the struct so far; the first value that does not fit is the error
  returned. A key that names no field is skipped.
\<close>

fun members :: "(string \<Rightarrow> 'a \<Rightarrow> json \<Rightarrow> error + 'a) \<Rightarrow> (string \<times> json) list \<Rightarrow> 'a \<Rightarrow> error + 'a" where
  "members field [] a = Inr a"
| "members field ((k, v) # ms) a =
     (case field k a v of Inl e \<Rightarrow> Inl e | Inr a' \<Rightarrow> members field ms a')"

definition Message_field :: "string \<Rightarrow> Message \<Rightarrow> json \<Rightarrow> error + Message" where
  "Message_field k m v =
     (if names k ''role'' then
        map_sum id (\<lambda>s. m\<lparr>Message.Role := s\<rparr>) (dec_string ''role'' (Message.Role m) v)
      else if names k ''content'' then
        map_sum id (\<lambda>s. m\<lparr>Message.Content := s\<rparr>) (dec_string ''content'' (Message.Content m) v)
      else Inr m)"

text \<open>
  An array is decoded into the slice element by element. An element at an index below
  the length the slice already has (from an earlier member of the same name) is
  decoded into the element that is there; one beyond it starts from the zero value
  (what the slice's memory beyond its length may still hold, after a body has named
  the member three times, is not modelled). The slice ends up with the length of the
  array.
\<close>

definition dec_Message :: "Message \<Rightarrow> json \<Rightarrow> error + Message" where
  "dec_Message cur v =
     (case v of
        JObject ms \<Rightarrow> members Message_field ms cur
      | JNull \<Rightarrow> Inr cur
      | _ \<Rightarrow> Inl (UnmarshalTypeError v ''messages''))"

fun dec_elements :: "Message list \<Rightarrow> json list \<Rightarrow> error + Message list" where
  "dec_elements cur [] = Inr []"
| "dec_elements cur (v # vs) =
     (case dec_Message (case cur of m # _ \<Rightarrow> m | [] \<Rightarrow> \<lparr>Message.Role = [], Content = []\<rparr>) v of
        Inl e \<Rightarrow> Inl e
      | Inr m \<Rightarrow> (case dec_elements (tl cur) vs of Inl e \<Rightarrow> Inl e | Inr ms \<Rightarrow> Inr (m # ms)))"

definition dec_Messages :: "Message list \<Rightarrow> json \<Rightarrow> error + Message list" where
  "dec_Messages cur v =
     (case v of
        JArray vs \<Rightarrow> dec_elements cur vs
      | JNull \<Rightarrow> Inr []
      | _ \<Rightarrow> Inl (UnmarshalTypeError v ''messages''))"

definition ResponseFormat_field :: "string \<Rightarrow> ResponseFormat \<Rightarrow> json \<Rightarrow> error + ResponseFormat" where
  "ResponseFormat_field k rf v =
     (if names k ''type'' then
        map_sum id (\<lambda>s. rf\<lparr>ResponseFormat.Type := s\<rparr>) (dec_string ''type'' (ResponseFormat.Type rf) v)
      else Inr rf)"

definition dec_ResponseFormat_ptr ::
  "ResponseFormat option \<Rightarrow> json \<Rightarrow> error + ResponseFormat option" where
  "dec_ResponseFormat_ptr cur v =
     (case v of
        JObject ms \<Rightarrow>
          map_sum id Some
            (members ResponseFormat_field ms
               (case cur of Some rf \<Rightarrow> rf | None \<Rightarrow> \<lparr>ResponseFormat.Type = []\<rparr>))
      | JNull \<Rightarrow> Inr None
      | _ \<Rightarrow> Inl (UnmarshalTypeError v ''response_format''))"

text \<open>
  The fields of \<^verbatim>\<open>Request\<close> under the names of their tags, as the struct declares
  them; \<^verbatim>\<open>Model\<close> has no tag and goes by its Go name.
\<close>

definition Request_field :: "string \<Rightarrow> Request \<Rightarrow> json \<Rightarrow> error + Request" where
  "Request_field k r v =
     (if names k ''Model'' then
        map_sum id (\<lambda>x. r\<lparr>Request.Model := x\<rparr>) (dec_string ''Model'' (Request.Model r) v)
      else if names k ''messages'' then
        map_sum id (\<lambda>x. r\<lparr>Request.Messages := x\<rparr>) (dec_Messages (Request.Messages r) v)
      else if names k ''stream'' then
        map_sum id (\<lambda>x. r\<lparr>Request.Stream := x\<rparr>) (dec_bool ''stream'' (Request.Stream r) v)
      else if names k ''max_tokens'' then
        map_sum id (\<lambda>x. r\<lparr>MaxTokens := x\<rparr>) (dec_int_ptr ''max_tokens'' v)
      else if names k ''seed'' then
        map_sum id (\<lambda>x. r\<lparr>Seed := x\<rparr>) (dec_int_ptr ''seed'' v)
      else if names k ''stop'' then
        map_sum id (\<lambda>x. r\<lparr>Stop := x\<rparr>) (to_any ''stop'' v)
      else if names k ''temperature'' then
        map_sum id (\<lambda>x. r\<lparr>Temperature := x\<rparr>) (dec_float64_ptr ''temperature'' v)
      else if names k ''frequency_penalty'' then
        map_sum id (\<lambda>x. r\<lparr>FrequencyPenalty := x\<rparr>) (dec_float64_ptr ''frequency_penalty'' v)
      else if names k ''presence_penalty_penalty'' then
        map_sum id (\<lambda>x. r\<lparr>PresencePenalty := x\<rparr>) (dec_float64_ptr ''presence_penalty_penalty'' v)
      else if names k ''top_p'' then
        map_sum id (\<lambda>x. r\<lparr>TopP := x\<rparr>) (dec_float64_ptr ''top_p'' v)
      else if names k ''response_format'' then
        map_sum id (\<lambda>x. r\<lparr>Request.ResponseFormat := x\<rparr>)
          (dec_ResponseFormat_ptr (Request.ResponseFormat r) v)
      else Inr r)"

text \<open>\<^verbatim>\<open>var req Request\<close>: every field at its zero value.\<close>

definition zero_Request :: Request where
  "zero_Request =
     \<lparr>Request.Model = [], Messages = [], Stream = False, MaxTokens = None, Seed = None,
      Stop = ANil, Temperature = None, FrequencyPenalty = None, PresencePenalty = None,
      TopP = None, ResponseFormat = None\<rparr>"

definition Unmarshal_Request :: "json \<Rightarrow> error + Request" where
  "Unmarshal_Request v =
     (case v of
        JObject ms \<Rightarrow> members Request_field ms zero_Request
      | JNull \<Rightarrow> Inr zero_Request
      | _ \<Rightarrow> Inl (UnmarshalTypeError v ''Request''))"

subsection \<open>What the file calls outside itself\<close>

text \<open>
  The calls into \<^verbatim>\<open>encoding/json\<close>, into package \<^verbatim>\<open>api\<close> and \<^verbatim>\<open>err.Error()\<close>
  are parameters of the model, collected in one record. \<open>'e\<close> is \<^verbatim>\<open>api.StatusError\<close>,
  of which the file uses nothing but its \<^verbatim>\<open>Error()\<close> text. An \<^verbatim>\<open>Unmarshal\<close> whose
  error the code only compares with \<^verbatim>\<open>nil\<close> returns an \<open>option\<close>, and so does a
  \<^verbatim>\<open>Marshal\<close> on the response path.
  \<^item> \<open>Decode\<close>: the JSON text of a request body as a tree, or the syntax error.
  \<^item> \<open>Error_text\<close>: \<^verbatim>\<open>err.Error()\<close>.
\<close>

record 'e env =
  Decode :: "string \<Rightarrow> error + json"
  Error_text :: "error \<Rightarrow> string"
  Marshal_ChatRequest :: "api_ChatRequest \<Rightarrow> error + string"
  Unmarshal_StatusError :: "string \<Rightarrow> 'e option"
  StatusError_Error :: "'e \<Rightarrow> string"
  Unmarshal_ChatResponse :: "string \<Rightarrow> api_ChatResponse option"
  Marshal_ErrorResponse :: "ErrorResponse \<Rightarrow> string option"
  Marshal_Completion :: "Completion \<Rightarrow> string option"
  Marshal_Chunk :: "Chunk \<Rightarrow> string option"

abbreviation StatusOK :: int where "StatusOK \<equiv> 200"
abbreviation StatusBadRequest :: int where "StatusBadRequest \<equiv> 400"
abbreviation StatusInternalServerError :: int where "StatusInternalServerError \<equiv> 500"

subsection \<open>The wrapped response writer\<close>

text \<open>
  \<^verbatim>\<open>gin.ResponseWriter\<close>, by the three things the relay does with it: it reads the
  status, sets a header and writes bytes. \<open>Body\<close> is what the client has received, one
  entry for each write, oldest first. A write can fail: \<open>Faults\<close> holds the outcome of
  the writes to come, \<open>None\<close> for a write that goes through and \<open>Some e\<close> for one that
  returns \<open>e\<close> and delivers nothing; when the list is used up, writes go through.
\<close>

record ResponseWriter =
  Status :: int
  Header :: "string \<rightharpoonup> string"
  Body :: "string list"
  Faults :: "error option list"

definition len :: "string \<Rightarrow> go_int" where
  "len data = of_nat (length data)"

definition Header_Set :: "string \<Rightarrow> string \<Rightarrow> ResponseWriter \<Rightarrow> ResponseWriter" where
  "Header_Set k v rw = rw\<lparr>Header := (Header rw)(k \<mapsto> v)\<rparr>"

definition ResponseWriter_Write ::
  "ResponseWriter \<Rightarrow> string \<Rightarrow> (go_int \<times> error option) \<times> ResponseWriter" where
  "ResponseWriter_Write rw d =
     (case Faults rw of
        Some e # fs \<Rightarrow> ((0, Some e), rw\<lparr>Faults := fs\<rparr>)
      | None # fs \<Rightarrow> ((len d, None), rw\<lparr>Body := Body rw @ [d], Faults := fs\<rparr>)
      | [] \<Rightarrow> ((len d, None), rw\<lparr>Body := Body rw @ [d]\<rparr>))"

subsection \<open>The relay: \<^verbatim>\<open>writer\<close> and \<^verbatim>\<open>writer.Write\<close>\<close>

record writer =
  stream :: bool
  id' :: string
  ResponseWriter :: ResponseWriter

text \<open>\<^verbatim>\<open>w.ResponseWriter.Header().Set(k, v)\<close> and \<^verbatim>\<open>w.ResponseWriter.Write(d)\<close>.\<close>

definition set_header :: "string \<Rightarrow> string \<Rightarrow> writer \<Rightarrow> writer" where
  "set_header k v w = w\<lparr>ResponseWriter := Header_Set k v (ResponseWriter w)\<rparr>"

definition write_through :: "writer \<Rightarrow> string \<Rightarrow> (go_int \<times> error option) \<times> writer" where
  "write_through w d =
     (let (res, rw) = ResponseWriter_Write (ResponseWriter w) d
      in (res, w\<lparr>ResponseWriter := rw\<rparr>))"

text \<open>\<^verbatim>\<open>fmt.Sprintf("data: %s\n\n", d)\<close> and the literal \<^verbatim>\<open>"data: [DONE]\n\n"\<close>.\<close>

definition sse_frame :: "string \<Rightarrow> string" where
  "sse_frame d = ''data: '' @ d @ [CHR 0x0A, CHR 0x0A]"

definition done_frame :: string where
  "done_frame = ''data: [DONE]'' @ [CHR 0x0A, CHR 0x0A]"

text \<open>
  The part of \<^verbatim>\<open>Write\<close> from the comment \<^verbatim>\<open>// chat chunk\<close> on, which runs when the
  request streams or when the completion could not be encoded. \<open>now\<close> is the clock
  reading inside \<^verbatim>\<open>toChunk\<close>.
\<close>

definition Write_chunk ::
  "'e env \<Rightarrow> int64 \<Rightarrow> writer \<Rightarrow> string \<Rightarrow> api_ChatResponse \<Rightarrow> (go_int \<times> error option) \<times> writer" where
  "Write_chunk env now w data chatResponse =
     (case Marshal_Chunk env (toChunk now (id' w) chatResponse) of
        Some d \<Rightarrow>
          (let w1 = set_header ''Content-Type'' ''text/event-stream'' w;
               (res, w2) = write_through w1 (sse_frame d)
           in case snd res of
                Some err \<Rightarrow> ((0, Some err), w2)
              | None \<Rightarrow>
                  if Done chatResponse then write_through w2 done_frame
                  else ((len data, None), w2))
      | None \<Rightarrow> ((len data, None), w))"

definition Write :: "'e env \<Rightarrow> int64 \<Rightarrow> writer \<Rightarrow> string \<Rightarrow> (go_int \<times> error option) \<times> writer" where
  "Write env now w data =
     (if Status (ResponseWriter w) \<noteq> StatusOK then
        (case Unmarshal_StatusError env data of
           Some serr \<Rightarrow>
             (let w1 = set_header ''Content-Type'' ''application/json'' w
              in case Marshal_ErrorResponse env
                        (NewError StatusInternalServerError (StatusError_Error env serr)) of
                   Some d \<Rightarrow> write_through w1 d
                 | None \<Rightarrow> ((len data, None), w1))
         | None \<Rightarrow> ((len data, None), w))
      else
        (case Unmarshal_ChatResponse env data of
           Some chatResponse \<Rightarrow>
             if \<not> stream w then
               (case Marshal_Completion env (toCompletion (id' w) chatResponse) of
                  Some d \<Rightarrow> write_through (set_header ''Content-Type'' ''application/json'' w) d
                | None \<Rightarrow> Write_chunk env now w data chatResponse)
             else Write_chunk env now w data chatResponse
         | None \<Rightarrow> ((len data, None), w)))"

text \<open>
  The writes of a backend handler over the lifetime of one request, in call order: each
  with the response status and the clock reading at the time of the call, and its
  payload. The result is the relay after the last of them.
\<close>

fun Writes :: "'e env \<Rightarrow> writer \<Rightarrow> (int \<times> int64 \<times> string) list \<Rightarrow> writer" where
  "Writes env w [] = w"
| "Writes env w ((st, now, data) # calls) =
     Writes env
       (snd (Write env now (w\<lparr>ResponseWriter := (ResponseWriter w)\<lparr>Status := st\<rparr>\<rparr>) data))
       calls"

subsection \<open>\<^verbatim>\<open>Middleware\<close>\<close>

text \<open>\<^verbatim>\<open>fmt.Sprintf("%d", n)\<close> for \<open>n \<ge> 0\<close>.\<close>

fun fmt_d :: "nat \<Rightarrow> string" where
  "fmt_d n = (if n < 10 then [''0123456789'' ! n]
              else fmt_d (n div 10) @ [''0123456789'' ! (n mod 10)])"

declare fmt_d.simps [simp del]

text \<open>
  The context, by what the handler touches: the request body and the response writer.
  The handler ends in one of two ways: \<^verbatim>\<open>c.AbortWithStatusJSON(code, obj)\<close>, which
  answers the client and stops the chain of handlers, or \<^verbatim>\<open>c.Next()\<close>, which runs
  the handlers after this one (the backend's) on the new body, with the relay as the
  context's writer.
\<close>

record Context =
  Request_Body :: string
  Writer :: ResponseWriter

datatype outcome =
    AbortWithStatusJSON int ErrorResponse
  | Next string writer

definition ShouldBindJSON :: "'e env \<Rightarrow> string \<Rightarrow> error + Request" where
  "ShouldBindJSON env body =
     (case Decode env body of Inl err \<Rightarrow> Inl err | Inr v \<Rightarrow> Unmarshal_Request v)"

definition too_short :: string where
  "too_short = ''[] is too short - '' @ [CHR 0x27] @ ''messages'' @ [CHR 0x27]"

text \<open>\<open>n\<close> is what \<^verbatim>\<open>rand.Intn(999)\<close> returns.\<close>

definition Middleware :: "'e env \<Rightarrow> nat \<Rightarrow> Context \<Rightarrow> outcome" where
  "Middleware env n c =
     (case ShouldBindJSON env (Request_Body c) of
        Inl err \<Rightarrow>
          AbortWithStatusJSON StatusBadRequest (NewError StatusBadRequest (Error_text env err))
      | Inr req \<Rightarrow>
          if length (Request.Messages req) = 0 then
            AbortWithStatusJSON StatusBadRequest (NewError StatusBadRequest too_short)
          else
            (case Marshal_ChatRequest env (fromRequest req) of
               Inl err \<Rightarrow>
                 AbortWithStatusJSON StatusInternalServerError
                   (NewError StatusInternalServerError (Error_text env err))
             | Inr data \<Rightarrow>
                 Next data \<lparr>stream = Request.Stream req,
                            id' = ''chatcmpl-'' @ fmt_d n,
                            ResponseWriter = Writer c\<rparr>))"

subsection \<open>Concrete inputs\<close>

text \<open>
  A stand-in for the library calls, to run the model on concrete inputs: bodies are
  looked up in a table, a native fragment is written \<open>+text\<close> (more to come) or
  \<open>.text\<close> (done), a native error \<open>!text\<close>, and an encoded value shows its id or
  type and its text.
\<close>

definition demo_env :: "string env" where
  "demo_env =
     \<lparr>Decode = (\<lambda>b. if b = ''no messages'' then Inr (JObject [(''model'', JString ''m'')])
                    else if b = ''empty messages'' then
                      Inr (JObject [(''model'', JString ''m''), (''messages'', JArray [])])
                    else if b = ''empty messages, stream yes'' then
                      Inr (JObject [(''messages'', JArray []), (''stream'', JString ''yes'')])
                    else if b = ''chat'' then
                      Inr (JObject [(''model'', JString ''m''), (''stream'', JBool True),
                             (''messages'', JArray [JObject [(''role'', JString ''user''),
                                                             (''content'', JString ''hi'')]])])
                    else Inl (SyntaxError b)),
      Error_text = (\<lambda>e. case e of SyntaxError s \<Rightarrow> s | UnmarshalTypeError v f \<Rightarrow> f
                          | MarshalError s \<Rightarrow> s | WriteError s \<Rightarrow> s),
      Marshal_ChatRequest = (\<lambda>r. Inr (api_ChatRequest.Model r)),
      Unmarshal_StatusError = (\<lambda>d. if take 1 d = ''!'' then Some (drop 1 d) else None),
      StatusError_Error = (\<lambda>e. e),
      Unmarshal_ChatResponse =
        (\<lambda>d. if take 1 d = ''+'' \<or> take 1 d = ''.'' then
                Some \<lparr>api_ChatResponse.Model = ''m'', CreatedAt = 0,
                      Message = \<lparr>api_Message.Role = ''assistant'', Content = drop 1 d\<rparr>,
                      Done = (take 1 d = ''.''), PromptEvalCount = 5, EvalCount = 10\<rparr>
              else None),
      Marshal_ErrorResponse =
        (\<lambda>e. Some (Error.Type (Error e) @ '':'' @ Error.Message (Error e))),
      Marshal_Completion =
        (\<lambda>c. Some (Completion.Id c @ '':'' @
                    concat (map (\<lambda>ch. Message.Content (Choice.Message ch)) (Completion.Choices c)))),
      Marshal_Chunk =
        (\<lambda>c. Some (Chunk.Id c @ '':'' @
                    concat (map (\<lambda>ch. Message.Content (Delta ch)) (Chunk.Choices c))))\<rparr>"

text \<open>A relay with id \<open>chatcmpl-7\<close> around a fresh response writer that does not fail.\<close>

definition demo_writer :: "bool \<Rightarrow> int \<Rightarrow> writer" where
  "demo_writer s st =
     \<lparr>stream = s, id' = ''chatcmpl-7'',
      ResponseWriter = \<lparr>Status = st, Header = Map.empty, Body = [], Faults = []\<rparr>\<rparr>"

text \<open>A request body with a seed and a temperature, and the struct it decodes to.\<close>

definition seeded_body :: json where
  "seeded_body =
     JObject [(''model'', JString ''m''),
              (''messages'', JArray [JObject [(''role'', JString ''user''),
                                              (''content'', JString ''hi'')]]),
              (''temperature'', JFrac 0.7),
              (''seed'', JInt 42)]"

definition seeded_request :: Request where
  "seeded_request =
     zero_Request\<lparr>Request.Model := ''m'',
                  Request.Messages := [\<lparr>Message.Role = ''user'', Content = ''hi''\<rparr>],
                  Seed := Some 42, Temperature := Some 0.7\<rparr>"

text \<open>A request body with both penalties, under the names of the vendor's schema.\<close>

definition penalty_body :: json where
  "penalty_body =
     JObject [(''model'', JString ''m''),
              (''messages'', JArray [JObject [(''role'', JString ''user''),
                                              (''content'', JString ''hi'')]]),
              (''frequency_penalty'', JFrac 1.0),
              (''presence_penalty'', JFrac 1.0)]"

section \<open>Properties\<close>

subsection \<open>The request translator\<close>

lemma collect_stops_eq: "collect_stops stops xs = stops @ [str. AString str \<leftarrow> xs]"
  by (induction xs arbitrary: stops) (auto split: any.splits)

text \<open>What \<^verbatim>\<open>fromRequest\<close> leaves under each key that the claims are about.\<close>

lemma Options_stop:
  "Options (fromRequest r) ''stop'' =
     (case Stop r of AString s \<Rightarrow> Some (AStrings [s])
                   | ASlice xs \<Rightarrow> Some (AStrings [str. AString str \<leftarrow> xs])
                   | _ \<Rightarrow> None)"
  by (simp add: fromRequest_def Let_def collect_stops_eq split: any.splits option.splits)

lemma Options_seed:
  "Options (fromRequest r) ''seed'' = map_option AInt (Seed r)"
  by (simp add: fromRequest_def Let_def split: any.splits option.splits)

lemma Options_temperature:
  "Options (fromRequest r) ''temperature'' =
     (case Seed r of Some n \<Rightarrow> Some (AFloat64 0.0) | None \<Rightarrow> map_option AFloat64 (Temperature r))"
  by (simp add: fromRequest_def Let_def split: any.splits option.splits)

lemma Options_presence_penalty:
  "Options (fromRequest r) ''presence_penalty'' =
     map_option (\<lambda>v. AFloat64 ((v + 2.0) / 4.0)) (PresencePenalty r)"
  by (simp add: fromRequest_def Let_def split: any.splits option.splits)

lemmas decode_simps =
  Unmarshal_Request_def Request_field_def names_def upper_def float64_fits_def
  dec_string_def dec_bool_def dec_int_ptr_def dec_float64_ptr_def
  dec_Messages_def dec_Message_def Message_field_def
  dec_ResponseFormat_ptr_def ResponseFormat_field_def zero_Request_def

text \<open>
  The decoder on three bodies: a key written with the long s or the Kelvin sign names
  the field; a number beyond the range of a \<^verbatim>\<open>float64\<close> is refused, in a float field
  and inside \<^verbatim>\<open>stop\<close>; a second \<^verbatim>\<open>messages\<close> member is decoded into the elements of
  the first.
\<close>

lemma folded_keys:
  "names [CHR ''m'', CHR ''e'', CHR 0xC5, CHR 0xBF, CHR 0xC5, CHR 0xBF, CHR ''a'', CHR ''g'', CHR ''e'', CHR ''s'']
     ''messages'' \<and>
   names [CHR ''m'', CHR ''a'', CHR ''x'', CHR ''_'', CHR ''t'', CHR ''o'', CHR 0xE2, CHR 0x84, CHR 0xAA,
          CHR ''e'', CHR ''n'', CHR ''s''] ''max_tokens''"
  by (simp add: names_def upper_def)

lemma number_out_of_range:
  "Unmarshal_Request (JObject [(''temperature'', JFrac (10 ^ 400))])
     = Inl (UnmarshalTypeError (JFrac (10 ^ 400)) ''temperature'') \<and>
   Unmarshal_Request (JObject [(''stop'', JArray [JString ''a'', JInt (10 ^ 400)])])
     = Inl (UnmarshalTypeError (JInt (10 ^ 400)) ''stop'')"
  by (simp add: decode_simps)

lemma repeated_messages:
  "map_sum id Request.Messages
     (Unmarshal_Request (JObject
        [(''messages'', JArray [JObject [(''role'', JString ''user''), (''content'', JString ''hi'')]]),
         (''messages'', JArray [JObject [(''role'', JString ''system'')],
                                JObject [(''content'', JString ''x'')]])]))
   = Inr [\<lparr>Message.Role = ''system'', Content = ''hi''\<rparr>, \<lparr>Message.Role = [], Content = ''x''\<rparr>]"
  by (simp add: decode_simps)

text \<open>
  Claim C2 says that a vendor request with the field \<^verbatim>\<open>presence_penalty\<close> = \<open>v\<close> is
  translated with the option \<^verbatim>\<open>presence_penalty\<close> = \<open>(v + 2.0) / 4.0\<close>. The struct field
  \<^verbatim>\<open>PresencePenalty\<close> is tagged \<^verbatim>\<open>presence_penalty_penalty\<close>, so the decoder never
  fills it from a member named \<^verbatim>\<open>presence_penalty\<close>: for a body with both penalties
  at 1.0 the field stays \<^verbatim>\<open>nil\<close> and the options have no \<^verbatim>\<open>presence_penalty\<close>,
  while \<^verbatim>\<open>frequency_penalty\<close>, whose tag is right, arrives as 0.75.
\<close>

theorem presence_penalty_field_not_bound:
  "map_sum id (\<lambda>r. (PresencePenalty r,
                     Options (fromRequest r) ''presence_penalty'',
                     Options (fromRequest r) ''frequency_penalty''))
     (Unmarshal_Request penalty_body)
   = Inr (None, None, Some (AFloat64 0.75))"
  by (simp add: penalty_body_def decode_simps fromRequest_def Let_def)

text \<open>
  \<^verbatim>\<open>fromRequest\<close> itself does the rescaling once the field is set, and the decoder
  sets it from a member named as the tag is.
\<close>

lemma presence_penalty_under_tag:
  "map_sum id (\<lambda>r. Options (fromRequest r) ''presence_penalty'')
     (Unmarshal_Request (JObject [(''presence_penalty_penalty'', JFrac 1.0)]))
   = Inr (Some (AFloat64 0.75))"
  by (simp add: decode_simps Options_presence_penalty)

text \<open>
  Claim C3: when \<^verbatim>\<open>seed\<close> is present, the options hold \<^verbatim>\<open>seed\<close> with the value
  supplied and \<^verbatim>\<open>temperature\<close> = 0.0, whatever temperature the request supplied.
\<close>

theorem seed_forces_zero_temperature:
  "Seed r = Some n \<Longrightarrow>
   Options (fromRequest r) ''seed'' = Some (AInt n) \<and>
   Options (fromRequest r) ''temperature'' = Some (AFloat64 0.0)"
  by (simp add: Options_seed Options_temperature)

theorem seed_forces_zero_temperature_witness:
  "Unmarshal_Request seeded_body = Inr seeded_request \<and>
   Seed seeded_request = Some 42 \<and> Temperature seeded_request = Some 0.7 \<and>
   Options (fromRequest seeded_request) ''seed'' = Some (AInt 42) \<and>
   Options (fromRequest seeded_request) ''temperature'' = Some (AFloat64 0.0)"
proof -
  have b: "Unmarshal_Request seeded_body = Inr seeded_request"
    by (simp add: seeded_body_def seeded_request_def decode_simps)
  have s: "Seed seeded_request = Some 42" and t: "Temperature seeded_request = Some 0.7"
    by (simp_all add: seeded_request_def zero_Request_def)
  from seed_forces_zero_temperature [OF s] b s t show ?thesis by simp
qed

text \<open>
  Claim C7: a \<^verbatim>\<open>stop\<close> that is one string \<open>s\<close> gives the option \<^verbatim>\<open>stop\<close> = \<open>[s]\<close>; a
  \<^verbatim>\<open>stop\<close> that is a sequence gives its string elements, in their order, the others
  dropped; an absent \<^verbatim>\<open>stop\<close> gives no option \<^verbatim>\<open>stop\<close>. Every request with a given
  \<^verbatim>\<open>Stop\<close> is \<open>r\<lparr>Stop := \<dots>\<rparr>\<close> for some \<open>r\<close>.
\<close>

theorem stop_translation:
  "Options (fromRequest (r\<lparr>Stop := AString s\<rparr>)) ''stop'' = Some (AStrings [s]) \<and>
   Options (fromRequest (r\<lparr>Stop := ASlice xs\<rparr>)) ''stop''
     = Some (AStrings [str. AString str \<leftarrow> xs]) \<and>
   Options (fromRequest (r\<lparr>Stop := ANil\<rparr>)) ''stop'' = None"
  by (simp add: Options_stop)

text \<open>The example of the specification, from the JSON text on.\<close>

lemma stop_example:
  "map_sum id (\<lambda>r. Options (fromRequest r) ''stop'')
     (Unmarshal_Request (JObject [(''stop'', JArray [JString ''foo'', JInt 7, JString ''bar''])]))
   = Inr (Some (AStrings [''foo'', ''bar'']))"
  by (simp add: decode_simps Options_stop)

text \<open>
  Claim C10: a \<^verbatim>\<open>stop\<close> that is a sequence with no string element (only numbers, say,
  or no element at all) still puts the key \<^verbatim>\<open>stop\<close> into the options, bound to the
  empty sequence, whereas an absent \<^verbatim>\<open>stop\<close> leaves the key out.
\<close>

theorem stop_without_strings_present:
  assumes "\<forall>x \<in> set xs. \<forall>s. x \<noteq> AString s"
  shows "Options (fromRequest (r\<lparr>Stop := ASlice xs\<rparr>)) ''stop'' = Some (AStrings []) \<and>
         ''stop'' \<in> dom (Options (fromRequest (r\<lparr>Stop := ASlice xs\<rparr>))) \<and>
         ''stop'' \<notin> dom (Options (fromRequest (r\<lparr>Stop := ANil\<rparr>)))"
proof -
  have "[str. AString str \<leftarrow> xs] = []"
    using assms by (induction xs) (auto split: any.splits)
  then show ?thesis by (simp add: Options_stop dom_def)
qed

theorem stop_without_strings_present_witness:
  "[str. AString str \<leftarrow> [AFloat64 1, AFloat64 2]] = [] \<and>
   Options (fromRequest (zero_Request\<lparr>Stop := ASlice [AFloat64 1, AFloat64 2]\<rparr>)) ''stop''
     = Some (AStrings []) \<and>
   Options (fromRequest (zero_Request\<lparr>Stop := ASlice []\<rparr>)) ''stop'' = Some (AStrings []) \<and>
   ''stop'' \<in> dom (Options (fromRequest (zero_Request\<lparr>Stop := ASlice []\<rparr>))) \<and>
   ''stop'' \<notin> dom (Options (fromRequest (zero_Request\<lparr>Stop := ANil\<rparr>)))"
proof -
  have h1: "\<forall>x \<in> set [AFloat64 1, AFloat64 2]. \<forall>s. x \<noteq> AString s" by simp
  have h2: "\<forall>x \<in> set ([] :: any list). \<forall>s. x \<noteq> AString s" by simp
  from stop_without_strings_present [OF h1, of zero_Request]
       stop_without_strings_present [OF h2, of zero_Request]
  show ?thesis by simp
qed

subsection \<open>The relay, one write at a time\<close>

text \<open>A write on a response writer with no fault to come goes through.\<close>

lemma ResponseWriter_Write_through:
  "set (Faults rw) \<subseteq> {None} \<Longrightarrow>
   ResponseWriter_Write rw d = ((len d, None), rw\<lparr>Body := Body rw @ [d], Faults := tl (Faults rw)\<rparr>)"
  by (cases "Faults rw") (auto simp: ResponseWriter_Write_def split: option.splits)

lemma write_through_ok:
  "set (Faults (ResponseWriter w)) \<subseteq> {None} \<Longrightarrow>
   write_through w d =
     ((len d, None),
      w\<lparr>ResponseWriter := (ResponseWriter w)\<lparr>Body := Body (ResponseWriter w) @ [d],
                                              Faults := tl (Faults (ResponseWriter w))\<rparr>\<rparr>)"
  by (simp add: write_through_def ResponseWriter_Write_through)

lemma tl_no_faults: "set fs \<subseteq> {None} \<Longrightarrow> set (tl fs) \<subseteq> {None}"
  by (cases fs) auto

lemma Write_stream_step:
  assumes "Status (ResponseWriter w) = StatusOK" and "stream w"
    and "Unmarshal_ChatResponse env data = Some r"
    and "Marshal_Chunk env (toChunk now (id' w) r) = Some d"
    and "set (Faults (ResponseWriter w)) \<subseteq> {None}"
  shows "stream (snd (Write env now w data))"
    and "id' (snd (Write env now w data)) = id' w"
    and "set (Faults (ResponseWriter (snd (Write env now w data)))) \<subseteq> {None}"
    and "Body (ResponseWriter (snd (Write env now w data))) =
           Body (ResponseWriter w) @ sse_frame d # (if Done r then [done_frame] else [])"
    and "Header (ResponseWriter (snd (Write env now w data))) ''Content-Type'' = Some ''text/event-stream''"
    and "fst (Write env now w data) = ((if Done r then len done_frame else len data), None)"
  using assms
  by (simp_all add: Write_def Write_chunk_def write_through_ok set_header_def Header_Set_def
        Let_def tl_no_faults)

text \<open>
  Claim C1 says that a write under status OK whose payload does not parse as a native
  chat response reaches the client byte for byte. No path of \<^verbatim>\<open>Write\<close> hands the
  payload to the wrapped writer: under the stand-in library the payload \<open>hello\<close> does
  not parse, and after the write the client has received nothing.
\<close>

theorem unparsed_ok_write_not_passed_through:
  "Status (ResponseWriter (demo_writer False StatusOK)) = StatusOK \<and>
   Unmarshal_ChatResponse demo_env ''hello'' = None \<and>
   Body (ResponseWriter (snd (Write demo_env 0 (demo_writer False StatusOK) ''hello''))) = [] \<and>
   Body (ResponseWriter (snd (Write demo_env 0 (demo_writer False StatusOK) ''hello''))) \<noteq>
     Body (ResponseWriter (demo_writer False StatusOK)) @ [''hello'']"
  by (simp add: Write_def demo_env_def demo_writer_def)

text \<open>
  Claim C1 as amended: a write under status OK whose payload does not parse as a native
  chat response delivers nothing (the relay and the wrapped writer are left as they
  were), and reports the payload's byte count with no error.
\<close>

theorem unparsed_ok_write_dropped:
  "Status (ResponseWriter w) = StatusOK \<Longrightarrow> Unmarshal_ChatResponse env data = None \<Longrightarrow>
   Write env now w data = ((len data, None), w)"
  by (simp add: Write_def)

theorem unparsed_ok_write_dropped_witness:
  "Status (ResponseWriter (demo_writer False StatusOK)) = StatusOK \<and>
   Unmarshal_ChatResponse demo_env ''hello'' = None \<and>
   Write demo_env 0 (demo_writer False StatusOK) ''hello'' = ((5, None), demo_writer False StatusOK)"
proof -
  have s: "Status (ResponseWriter (demo_writer False StatusOK)) = StatusOK"
    by (simp add: demo_writer_def)
  have u: "Unmarshal_ChatResponse demo_env ''hello'' = None"
    by (simp add: demo_env_def)
  from unparsed_ok_write_dropped [OF s u, of 0] s u show ?thesis by (simp add: len_def)
qed

text \<open>
  Claim C6: under a status other than OK, a payload that parses as the native error is
  answered with content type \<^verbatim>\<open>application/json\<close> and the envelope of type
  \<^verbatim>\<open>api_error\<close> whose message is the native error's text, whatever the status was
  (\<open>d\<close> is the envelope's encoding, and the wrapped writer takes the write); a payload
  that does not parse delivers nothing, and the write reports the payload's byte count
  with no error.
\<close>

theorem error_status_write:
  assumes "Status (ResponseWriter w) \<noteq> StatusOK"
  shows "(Unmarshal_StatusError env data = Some serr \<longrightarrow>
          Marshal_ErrorResponse env
            \<lparr>Error = \<lparr>Error.Message = StatusError_Error env serr, Type = ''api_error'',
                       Param = ANil, Code = None\<rparr>\<rparr> = Some d \<longrightarrow>
          set (Faults (ResponseWriter w)) \<subseteq> {None} \<longrightarrow>
            fst (Write env now w data) = (len d, None) \<and>
            Body (ResponseWriter (snd (Write env now w data))) = Body (ResponseWriter w) @ [d] \<and>
            Header (ResponseWriter (snd (Write env now w data))) ''Content-Type''
              = Some ''application/json'')
       \<and> (Unmarshal_StatusError env data = None \<longrightarrow>
            Write env now w data = ((len data, None), w))"
  using assms
  by (simp add: Write_def NewError_def write_through_ok set_header_def Header_Set_def Let_def)

theorem error_status_write_witness:
  "Status (ResponseWriter (demo_writer False 404)) \<noteq> StatusOK \<and>
   Unmarshal_StatusError demo_env ''!model not found'' = Some ''model not found'' \<and>
   Body (ResponseWriter (snd (Write demo_env 0 (demo_writer False 404) ''!model not found'')))
     = [''api_error:model not found''] \<and>
   Header (ResponseWriter (snd (Write demo_env 0 (demo_writer False 404) ''!model not found'')))
     ''Content-Type'' = Some ''application/json'' \<and>
   Unmarshal_StatusError demo_env ''<html>'' = None \<and>
   Write demo_env 0 (demo_writer False 404) ''<html>'' = ((6, None), demo_writer False 404)"
proof -
  have s: "Status (ResponseWriter (demo_writer False 404)) \<noteq> StatusOK"
    by (simp add: demo_writer_def)
  have u1: "Unmarshal_StatusError demo_env ''!model not found'' = Some ''model not found''"
    and u2: "Unmarshal_StatusError demo_env ''<html>'' = None"
    by (simp_all add: demo_env_def)
  have m: "Marshal_ErrorResponse demo_env
            \<lparr>Error = \<lparr>Error.Message = StatusError_Error demo_env ''model not found'',
                       Type = ''api_error'', Param = ANil, Code = None\<rparr>\<rparr>
           = Some ''api_error:model not found''"
    by (simp add: demo_env_def)
  have f: "set (Faults (ResponseWriter (demo_writer False 404))) \<subseteq> {None}"
    by (simp add: demo_writer_def)
  from error_status_write [OF s, where env = demo_env and data = "''!model not found''"
             and serr = "''model not found''" and d = "''api_error:model not found''" and now = 0]
       error_status_write [OF s, where env = demo_env and data = "''<html>''" and now = 0]
       s u1 u2 m f
  show ?thesis by (simp add: len_def demo_writer_def)
qed

lemma sint_add_no_overflow:
  fixes a b :: "64 word"
  assumes "0 \<le> sint a" "0 \<le> sint b" "sint a + sint b < 2 ^ 63"
  shows "sint (a + b) = sint a + sint b"
proof -
  have "sint (a + b) = signed_take_bit 63 (sint a + sint b)"
    by (simp add: sint_word_ariths)
  also have "\<dots> = sint a + sint b"
    using assms by (intro signed_take_bit_int_eq_self) auto
  finally show ?thesis .
qed

text \<open>
  Claim C8: for a request that does not stream, a payload under status OK that parses
  as a native chat response \<open>r\<close> is answered with the completion built from \<open>r\<close> (\<open>d\<close>
  is its encoding), as \<^verbatim>\<open>application/json\<close>. Its finish reason is \<open>stop\<close> when \<open>r\<close>
  is done and \<^verbatim>\<open>nil\<close> otherwise, and its usage holds the two counts of \<open>r\<close> and their
  sum. The sum is Go's \<^verbatim>\<open>+\<close> on \<^verbatim>\<open>int\<close>; it is the sum of the integers whenever
  that is below \<open>2^63\<close>.
\<close>

theorem non_streaming_completion:
  assumes "Status (ResponseWriter w) = StatusOK" and "\<not> stream w"
    and "Unmarshal_ChatResponse env data = Some r"
    and "Marshal_Completion env (toCompletion (id' w) r) = Some d"
    and "set (Faults (ResponseWriter w)) \<subseteq> {None}"
  shows "Body (ResponseWriter (snd (Write env now w data))) = Body (ResponseWriter w) @ [d] \<and>
         Header (ResponseWriter (snd (Write env now w data))) ''Content-Type''
           = Some ''application/json'' \<and>
         map Choice.FinishReason (Completion.Choices (toCompletion (id' w) r))
           = [if Done r then Some ''stop'' else None] \<and>
         Completion.Usage (toCompletion (id' w) r)
           = \<lparr>PromptTokens = PromptEvalCount r, CompletionTokens = EvalCount r,
              TotalTokens = PromptEvalCount r + EvalCount r\<rparr> \<and>
         (0 \<le> sint (PromptEvalCount r) \<and> 0 \<le> sint (EvalCount r) \<and>
          sint (PromptEvalCount r) + sint (EvalCount r) < 2 ^ 63 \<longrightarrow>
            sint (TotalTokens (Completion.Usage (toCompletion (id' w) r)))
              = sint (PromptEvalCount r) + sint (EvalCount r))"
proof -
  have "Write env now w data = write_through (set_header ''Content-Type'' ''application/json'' w) d"
    using assms by (simp add: Write_def)
  moreover have "set (Faults (ResponseWriter (set_header ''Content-Type'' ''application/json'' w))) \<subseteq> {None}"
    using assms(5) by (simp add: set_header_def Header_Set_def)
  ultimately have "Body (ResponseWriter (snd (Write env now w data))) = Body (ResponseWriter w) @ [d]"
    and "Header (ResponseWriter (snd (Write env now w data))) ''Content-Type'' = Some ''application/json''"
    by (simp_all add: write_through_ok set_header_def Header_Set_def)
  moreover have "map Choice.FinishReason (Completion.Choices (toCompletion (id' w) r))
           = [if Done r then Some ''stop'' else None]"
    by (simp add: toCompletion_def finish_reason_def)
  moreover have "Completion.Usage (toCompletion (id' w) r)
           = \<lparr>PromptTokens = PromptEvalCount r, CompletionTokens = EvalCount r,
              TotalTokens = PromptEvalCount r + EvalCount r\<rparr>"
    by (simp add: toCompletion_def)
  moreover have "0 \<le> sint (PromptEvalCount r) \<and> 0 \<le> sint (EvalCount r) \<and>
          sint (PromptEvalCount r) + sint (EvalCount r) < 2 ^ 63 \<longrightarrow>
            sint (TotalTokens (Completion.Usage (toCompletion (id' w) r)))
              = sint (PromptEvalCount r) + sint (EvalCount r)"
    by (simp add: toCompletion_def sint_add_no_overflow)
  ultimately show ?thesis by blast
qed

theorem non_streaming_completion_witness:
  "Unmarshal_ChatResponse demo_env ''.Hello'' =
     Some \<lparr>api_ChatResponse.Model = ''m'', CreatedAt = 0,
           Message = \<lparr>api_Message.Role = ''assistant'', Content = ''Hello''\<rparr>,
           Done = True, PromptEvalCount = 5, EvalCount = 10\<rparr> \<and>
   Body (ResponseWriter (snd (Write demo_env 0 (demo_writer False StatusOK) ''.Hello'')))
     = [''chatcmpl-7:Hello''] \<and>
   map Choice.FinishReason (Completion.Choices (toCompletion ''chatcmpl-7''
       \<lparr>api_ChatResponse.Model = ''m'', CreatedAt = 0,
        Message = \<lparr>api_Message.Role = ''assistant'', Content = ''Hello''\<rparr>,
        Done = True, PromptEvalCount = 5, EvalCount = 10\<rparr>)) = [Some ''stop''] \<and>
   Completion.Usage (toCompletion ''chatcmpl-7''
       \<lparr>api_ChatResponse.Model = ''m'', CreatedAt = 0,
        Message = \<lparr>api_Message.Role = ''assistant'', Content = ''Hello''\<rparr>,
        Done = True, PromptEvalCount = 5, EvalCount = 10\<rparr>)
     = \<lparr>PromptTokens = 5, CompletionTokens = 10, TotalTokens = 15\<rparr>"
proof -
  let ?r = "\<lparr>api_ChatResponse.Model = ''m'', CreatedAt = 0,
        Message = \<lparr>api_Message.Role = ''assistant'', Content = ''Hello''\<rparr>,
        Done = True, PromptEvalCount = 5, EvalCount = 10\<rparr>"
  let ?w = "demo_writer False StatusOK"
  have s: "Status (ResponseWriter ?w) = StatusOK" and n: "\<not> stream ?w"
    and f: "set (Faults (ResponseWriter ?w)) \<subseteq> {None}"
    by (simp_all add: demo_writer_def)
  have u: "Unmarshal_ChatResponse demo_env ''.Hello'' = Some ?r"
    by (simp add: demo_env_def)
  have m: "Marshal_Completion demo_env (toCompletion (id' ?w) ?r) = Some ''chatcmpl-7:Hello''"
    by (simp add: demo_env_def demo_writer_def toCompletion_def)
  from non_streaming_completion [OF s n u m f, of 0] u show ?thesis
    by (simp add: demo_writer_def)
qed


subsection \<open>The relay over the writes of one request\<close>

text \<open>
  The frames of a run of fragments, by the names of the two definitions.
\<close>

lemma Writes_stream_frames:
  assumes "stream w" and "set (Faults (ResponseWriter w)) \<subseteq> {None}"
    and "\<forall>(now, data, r, d) \<in> set frs.
           Unmarshal_ChatResponse env data = Some r \<and>
           Marshal_Chunk env (toChunk now (id' w) r) = Some d"
  shows "Body (ResponseWriter (Writes env w (map (\<lambda>(now, data, r, d). (StatusOK, now, data)) frs))) =
           Body (ResponseWriter w) @
           concat (map (\<lambda>(now, data, r, d). sse_frame d # (if Done r then [done_frame] else [])) frs)
         \<and> (frs \<noteq> [] \<longrightarrow>
              Header (ResponseWriter (Writes env w (map (\<lambda>(now, data, r, d). (StatusOK, now, data)) frs)))
                ''Content-Type'' = Some ''text/event-stream'')
         \<and> (\<forall>(now, data, r, d) \<in> set frs.
              map (\<lambda>ch. (Message.Role (Delta ch), ChunkChoice.FinishReason ch))
                  (Chunk.Choices (toChunk now (id' w) r))
              = [(''assistant'', if Done r then Some ''stop'' else None)])"
  using assms
proof (induction frs arbitrary: w)
  case Nil
  then show ?case by simp
next
  case (Cons fr frs)
  obtain now data r d where fr: "fr = (now, data, r, d)" by (cases fr) auto
  let ?w0 = "w\<lparr>ResponseWriter := (ResponseWriter w)\<lparr>Status := StatusOK\<rparr>\<rparr>"
  let ?w1 = "snd (Write env now ?w0 data)"
  have p: "Unmarshal_ChatResponse env data = Some r"
          "Marshal_Chunk env (toChunk now (id' ?w0) r) = Some d"
    using Cons.prems(3) fr by auto
  have s0: "Status (ResponseWriter ?w0) = StatusOK" "stream ?w0"
           "set (Faults (ResponseWriter ?w0)) \<subseteq> {None}"
    using Cons.prems by auto
  note st = Write_stream_step [OF s0(1) s0(2) p(1) p(2) s0(3)]
  have i1: "id' ?w1 = id' w" using st(2) by simp
  have rest: "\<forall>(now, data, r, d) \<in> set frs.
           Unmarshal_ChatResponse env data = Some r \<and>
           Marshal_Chunk env (toChunk now (id' ?w1) r) = Some d"
    using Cons.prems(3) i1 by auto
  note ih = Cons.IH [OF st(1) st(3) rest]
  have b1: "Body (ResponseWriter ?w1) =
              Body (ResponseWriter w) @ sse_frame d # (if Done r then [done_frame] else [])"
    using st(4) by simp
  have unf: "Writes env w (map (\<lambda>(now, data, r, d). (StatusOK, now, data)) (fr # frs)) =
             Writes env ?w1 (map (\<lambda>(now, data, r, d). (StatusOK, now, data)) frs)"
    by (simp add: fr)
  have body: "Body (ResponseWriter (Writes env w (map (\<lambda>(now, data, r, d). (StatusOK, now, data)) (fr # frs)))) =
           Body (ResponseWriter w) @
           concat (map (\<lambda>(now, data, r, d). sse_frame d # (if Done r then [done_frame] else [])) (fr # frs))"
  proof -
    have "Body (ResponseWriter (Writes env ?w1 (map (\<lambda>(now, data, r, d). (StatusOK, now, data)) frs))) =
            Body (ResponseWriter ?w1) @
            concat (map (\<lambda>(now, data, r, d). sse_frame d # (if Done r then [done_frame] else [])) frs)"
      using ih by blast
    then show ?thesis unfolding unf b1 by (simp add: fr)
  qed
  have hdr: "Header (ResponseWriter (Writes env w (map (\<lambda>(now, data, r, d). (StatusOK, now, data)) (fr # frs))))
                ''Content-Type'' = Some ''text/event-stream''"
  proof (cases "frs = []")
    case True
    then show ?thesis using st(5) unf by simp
  next
    case False
    have "frs \<noteq> [] \<longrightarrow>
          Header (ResponseWriter (Writes env ?w1 (map (\<lambda>(now, data, r, d). (StatusOK, now, data)) frs)))
            ''Content-Type'' = Some ''text/event-stream''"
      using ih by blast
    with False show ?thesis unfolding unf by blast
  qed
  have ch: "\<forall>(now, data, r, d) \<in> set (fr # frs).
              map (\<lambda>ch. (Message.Role (Delta ch), ChunkChoice.FinishReason ch))
                  (Chunk.Choices (toChunk now (id' w) r))
              = [(''assistant'', if Done r then Some ''stop'' else None)]"
    by (auto simp: toChunk_def finish_reason_def)
  from body hdr ch show ?case by blast
qed

text \<open>
  Claim C4: for a request that streams, let the backend write the fragments \<open>frs\<close>
  under status OK, each a payload that parses (as \<open>r\<close>) and whose chunk encodes (as
  \<open>d\<close>), on a writer that takes every write. Then the client receives, for each
  fragment in order, exactly one frame, the bytes \<open>data: \<close>, then \<open>d\<close>, then two
  newlines, and, when the fragment is done, the frame \<open>data: [DONE]\<close> with two newlines
  right after it; the content type is \<^verbatim>\<open>text/event-stream\<close>; and each chunk has the
  role \<open>assistant\<close> and the finish reason \<open>stop\<close> exactly when its fragment is done.
\<close>

theorem streaming_frames:
  assumes "stream w" and "set (Faults (ResponseWriter w)) \<subseteq> {None}"
    and "\<forall>(now, data, r, d) \<in> set frs.
           Unmarshal_ChatResponse env data = Some r \<and>
           Marshal_Chunk env (toChunk now (id' w) r) = Some d"
  shows "Body (ResponseWriter (Writes env w (map (\<lambda>(now, data, r, d). (StatusOK, now, data)) frs))) =
           Body (ResponseWriter w) @
           concat (map (\<lambda>(now, data, r, d).
                          (''data: '' @ d @ [CHR 0x0A, CHR 0x0A]) #
                          (if Done r then [''data: [DONE]'' @ [CHR 0x0A, CHR 0x0A]] else [])) frs)
         \<and> (frs \<noteq> [] \<longrightarrow>
              Header (ResponseWriter (Writes env w (map (\<lambda>(now, data, r, d). (StatusOK, now, data)) frs)))
                ''Content-Type'' = Some ''text/event-stream'')
         \<and> (\<forall>(now, data, r, d) \<in> set frs.
              map (\<lambda>ch. (Message.Role (Delta ch), ChunkChoice.FinishReason ch))
                  (Chunk.Choices (toChunk now (id' w) r))
              = [(''assistant'', if Done r then Some ''stop'' else None)])"
  using Writes_stream_frames [OF assms] unfolding sse_frame_def done_frame_def .

text \<open>
  Two fragments, the second one done: two data frames and then the closing frame, byte
  for byte.
\<close>

theorem streaming_frames_witness:
  "stream (demo_writer True StatusOK) \<and>
   Unmarshal_ChatResponse demo_env ''+Hel'' \<noteq> None \<and>
   Unmarshal_ChatResponse demo_env ''.lo'' \<noteq> None \<and>
   Body (ResponseWriter (Writes demo_env (demo_writer True StatusOK)
           [(StatusOK, 1, ''+Hel''), (StatusOK, 2, ''.lo'')])) =
     [''data: chatcmpl-7:Hel'' @ [CHR 0x0A, CHR 0x0A],
      ''data: chatcmpl-7:lo'' @ [CHR 0x0A, CHR 0x0A],
      ''data: [DONE]'' @ [CHR 0x0A, CHR 0x0A]] \<and>
   Header (ResponseWriter (Writes demo_env (demo_writer True StatusOK)
           [(StatusOK, 1, ''+Hel''), (StatusOK, 2, ''.lo'')])) ''Content-Type''
     = Some ''text/event-stream''"
proof -
  let ?r1 = "\<lparr>api_ChatResponse.Model = ''m'', CreatedAt = 0,
               Message = \<lparr>api_Message.Role = ''assistant'', Content = ''Hel''\<rparr>,
               Done = False, PromptEvalCount = 5, EvalCount = 10\<rparr>"
  let ?r2 = "\<lparr>api_ChatResponse.Model = ''m'', CreatedAt = 0,
               Message = \<lparr>api_Message.Role = ''assistant'', Content = ''lo''\<rparr>,
               Done = True, PromptEvalCount = 5, EvalCount = 10\<rparr>"
  let ?frs = "[(1, ''+Hel'', ?r1, ''chatcmpl-7:Hel''), (2, ''.lo'', ?r2, ''chatcmpl-7:lo'')]"
  have s: "stream (demo_writer True StatusOK)"
    and f: "set (Faults (ResponseWriter (demo_writer True StatusOK))) \<subseteq> {None}"
    by (simp_all add: demo_writer_def)
  have h: "\<forall>(now, data, r, d) \<in> set ?frs.
             Unmarshal_ChatResponse demo_env data = Some r \<and>
             Marshal_Chunk demo_env (toChunk now (id' (demo_writer True StatusOK)) r) = Some d"
    by (simp add: demo_env_def demo_writer_def toChunk_def)
  have u: "Unmarshal_ChatResponse demo_env ''+Hel'' \<noteq> None"
          "Unmarshal_ChatResponse demo_env ''.lo'' \<noteq> None"
    by (simp_all add: demo_env_def)
  from streaming_frames [OF s f h] s u show ?thesis
    by (simp add: demo_writer_def)
qed

text \<open>
  Whatever a write receives, it leaves the relay's id and streaming flag alone, and what
  it hands to the client satisfies \<open>P\<close>, if \<open>P\<close> holds of every encoded completion and
  framed chunk built with the relay's id, of the closing frame and of every encoded
  error envelope.
\<close>

lemma write_through_out:
  assumes "P d"
  shows "\<exists>out. Body (ResponseWriter (snd (write_through w d))) = Body (ResponseWriter w) @ out \<and>
               (\<forall>p \<in> set out. P p) \<and>
               id' (snd (write_through w d)) = id' w \<and>
               stream (snd (write_through w d)) = stream w"
proof (cases "Faults (ResponseWriter w)")
  case Nil
  then have "Body (ResponseWriter (snd (write_through w d))) = Body (ResponseWriter w) @ [d]"
    and "id' (snd (write_through w d)) = id' w" and "stream (snd (write_through w d)) = stream w"
    by (simp_all add: write_through_def ResponseWriter_Write_def)
  with assms show ?thesis by auto
next
  case (Cons f fs)
  show ?thesis
  proof (cases f)
    case None
    with Cons have "Body (ResponseWriter (snd (write_through w d))) = Body (ResponseWriter w) @ [d]"
      and "id' (snd (write_through w d)) = id' w" and "stream (snd (write_through w d)) = stream w"
      by (simp_all add: write_through_def ResponseWriter_Write_def)
    with assms show ?thesis by auto
  next
    case (Some e)
    with Cons have "Body (ResponseWriter (snd (write_through w d))) = Body (ResponseWriter w) @ []"
      and "id' (snd (write_through w d)) = id' w" and "stream (snd (write_through w d)) = stream w"
      by (simp_all add: write_through_def ResponseWriter_Write_def)
    then show ?thesis by (metis empty_iff empty_set)
  qed
qed

lemma set_header_fields [simp]:
  "Body (ResponseWriter (set_header k v w)) = Body (ResponseWriter w)"
  "id' (set_header k v w) = id' w"
  "stream (set_header k v w) = stream w"
  by (simp_all add: set_header_def Header_Set_def)

lemma Write_chunk_out:
  assumes chunks: "\<And>d. Marshal_Chunk env (toChunk now (id' w) r) = Some d \<Longrightarrow> P (sse_frame d)"
    and dn: "P done_frame"
  shows "\<exists>out. Body (ResponseWriter (snd (Write_chunk env now w data r))) = Body (ResponseWriter w) @ out \<and>
               (\<forall>p \<in> set out. P p) \<and>
               id' (snd (Write_chunk env now w data r)) = id' w \<and>
               stream (snd (Write_chunk env now w data r)) = stream w"
proof (cases "Marshal_Chunk env (toChunk now (id' w) r)")
  case None
  then have "snd (Write_chunk env now w data r) = w" by (simp add: Write_chunk_def)
  then show ?thesis by simp
next
  case (Some d)
  let ?w1 = "set_header ''Content-Type'' ''text/event-stream'' w"
  let ?t = "write_through ?w1 (sse_frame d)"
  from write_through_out [of P "sse_frame d" ?w1] chunks [OF Some]
  obtain out1 where o1: "Body (ResponseWriter (snd ?t)) = Body (ResponseWriter w) @ out1"
      "\<forall>p \<in> set out1. P p" "id' (snd ?t) = id' w" "stream (snd ?t) = stream w"
    by auto
  from write_through_out [of P done_frame "snd ?t"] dn
  obtain out2 where o2: "Body (ResponseWriter (snd (write_through (snd ?t) done_frame))) = Body (ResponseWriter (snd ?t)) @ out2"
      "\<forall>p \<in> set out2. P p" "id' (snd (write_through (snd ?t) done_frame)) = id' (snd ?t)"
      "stream (snd (write_through (snd ?t) done_frame)) = stream (snd ?t)"
    by auto
  have "snd (Write_chunk env now w data r) = snd ?t \<or>
        snd (Write_chunk env now w data r) = snd (write_through (snd ?t) done_frame)"
    using Some by (simp add: Write_chunk_def Let_def split: prod.splits option.splits)
  then show ?thesis
  proof
    assume "snd (Write_chunk env now w data r) = snd ?t"
    with o1 show ?thesis by auto
  next
    assume e: "snd (Write_chunk env now w data r) = snd (write_through (snd ?t) done_frame)"
    have "Body (ResponseWriter (snd (Write_chunk env now w data r))) = Body (ResponseWriter w) @ (out1 @ out2)"
      using e o1 o2 by simp
    moreover have "\<forall>p \<in> set (out1 @ out2). P p" using o1 o2 by auto
    ultimately show ?thesis using e o1 o2 by metis
  qed
qed

lemma Write_out:
  assumes completions: "\<And>r d. Marshal_Completion env (toCompletion (id' w) r) = Some d \<Longrightarrow> P d"
    and chunks: "\<And>r d. Marshal_Chunk env (toChunk now (id' w) r) = Some d \<Longrightarrow> P (sse_frame d)"
    and dn: "P done_frame"
    and errors: "\<And>e d. Marshal_ErrorResponse env e = Some d \<Longrightarrow> P d"
  shows "\<exists>out. Body (ResponseWriter (snd (Write env now w data))) = Body (ResponseWriter w) @ out \<and>
               (\<forall>p \<in> set out. P p) \<and>
               id' (snd (Write env now w data)) = id' w \<and>
               stream (snd (Write env now w data)) = stream w"
proof -
  let ?j = "set_header ''Content-Type'' ''application/json'' w"
  let ?goal = ?thesis
  have through: "\<And>d. P d \<Longrightarrow> snd (Write env now w data) = snd (write_through ?j d) \<Longrightarrow> ?goal"
  proof -
    fix d assume "P d" and e: "snd (Write env now w data) = snd (write_through ?j d)"
    from write_through_out [of P d ?j, OF \<open>P d\<close>] show ?goal unfolding e by simp
  qed
  have chunk: "\<And>r. snd (Write env now w data) = snd (Write_chunk env now w data r) \<Longrightarrow> ?goal"
  proof -
    fix r assume e: "snd (Write env now w data) = snd (Write_chunk env now w data r)"
    from Write_chunk_out [of env now w r P data] chunks dn show ?goal unfolding e by simp
  qed
  show ?thesis
  proof (cases "Status (ResponseWriter w) \<noteq> StatusOK")
    case True
    show ?thesis
    proof (cases "Unmarshal_StatusError env data")
      case None
      with True have "snd (Write env now w data) = w" by (simp add: Write_def)
      then show ?thesis by simp
    next
      case (Some serr)
      show ?thesis
      proof (cases "Marshal_ErrorResponse env
                      (NewError StatusInternalServerError (StatusError_Error env serr))")
        case None
        with True Some have "snd (Write env now w data) = ?j" by (simp add: Write_def)
        then show ?thesis by simp
      next
        case (Some d)
        with True \<open>Unmarshal_StatusError env data = Some serr\<close>
        have "snd (Write env now w data) = snd (write_through ?j d)" by (simp add: Write_def)
        with errors [OF Some] show ?thesis by (rule through)
      qed
    qed
  next
    case False
    show ?thesis
    proof (cases "Unmarshal_ChatResponse env data")
      case None
      with False have "snd (Write env now w data) = w" by (simp add: Write_def)
      then show ?thesis by simp
    next
      case (Some r)
      show ?thesis
      proof (cases "stream w")
        case True
        with False Some have "snd (Write env now w data) = snd (Write_chunk env now w data r)"
          by (simp add: Write_def)
        then show ?thesis by (rule chunk)
      next
        case nostream: False
        show ?thesis
        proof (cases "Marshal_Completion env (toCompletion (id' w) r)")
          case None
          with False Some nostream
          have "snd (Write env now w data) = snd (Write_chunk env now w data r)"
            by (simp add: Write_def)
          then show ?thesis by (rule chunk)
        next
          case (Some d)
          with False \<open>Unmarshal_ChatResponse env data = Some r\<close> nostream
          have "snd (Write env now w data) = snd (write_through ?j d)" by (simp add: Write_def)
          with completions [OF Some] show ?thesis by (rule through)
        qed
      qed
    qed
  qed
qed

lemma Writes_out:
  assumes completions: "\<And>r d. Marshal_Completion env (toCompletion (id' w) r) = Some d \<Longrightarrow> P d"
    and chunks: "\<And>now r d. Marshal_Chunk env (toChunk now (id' w) r) = Some d \<Longrightarrow> P (sse_frame d)"
    and dn: "P done_frame"
    and errors: "\<And>e d. Marshal_ErrorResponse env e = Some d \<Longrightarrow> P d"
  shows "\<exists>out. Body (ResponseWriter (Writes env w calls)) = Body (ResponseWriter w) @ out \<and>
               (\<forall>p \<in> set out. P p) \<and>
               id' (Writes env w calls) = id' w \<and>
               stream (Writes env w calls) = stream w"
  using completions chunks
proof (induction calls arbitrary: w)
  case Nil
  then show ?case by simp
next
  case (Cons call calls)
  obtain st now data where call: "call = (st, now, data)" by (cases call) auto
  let ?w0 = "w\<lparr>ResponseWriter := (ResponseWriter w)\<lparr>Status := st\<rparr>\<rparr>"
  let ?w1 = "snd (Write env now ?w0 data)"
  have i0: "id' ?w0 = id' w" by simp
  from Write_out [of env ?w0 P now data] Cons.prems dn errors
  obtain out1 where o1: "Body (ResponseWriter ?w1) = Body (ResponseWriter w) @ out1"
      "\<forall>p \<in> set out1. P p" "id' ?w1 = id' w" "stream ?w1 = stream w"
    unfolding i0 by auto
  from Cons.IH [of ?w1] Cons.prems
  obtain out2 where o2: "Body (ResponseWriter (Writes env ?w1 calls)) = Body (ResponseWriter ?w1) @ out2"
      "\<forall>p \<in> set out2. P p" "id' (Writes env ?w1 calls) = id' ?w1"
      "stream (Writes env ?w1 calls) = stream ?w1"
    unfolding o1(3) by auto
  have unf: "Writes env w (call # calls) = Writes env ?w1 calls" by (simp add: call)
  have "Body (ResponseWriter (Writes env w (call # calls))) = Body (ResponseWriter w) @ (out1 @ out2)"
    unfolding unf using o1 o2 by simp
  moreover have "\<forall>p \<in> set (out1 @ out2). P p" using o1 o2 by auto
  moreover have "id' (Writes env w (call # calls)) = id' w" "stream (Writes env w (call # calls)) = stream w"
    unfolding unf using o1 o2 by simp_all
  ultimately show ?case by blast
qed

lemma Middleware_Next:
  assumes "Middleware env n c = Next body w"
  shows "\<exists>req. ShouldBindJSON env (Request_Body c) = Inr req \<and>
               w = \<lparr>stream = Request.Stream req, id' = ''chatcmpl-'' @ fmt_d n,
                    ResponseWriter = Writer c\<rparr>"
  using assms
  by (auto simp: Middleware_def split: sum.splits if_splits)

text \<open>
  Claim C9: the relay that \<^verbatim>\<open>Middleware\<close> installs has the id \<open>chatcmpl-n\<close> drawn
  at that moment and the request's streaming flag. Over any writes of the backend
  handler, under any statuses, both stay as they are, and everything the client
  receives is the encoding of a completion with that id, the frame of a chunk with that
  id, the closing frame or an error envelope.
\<close>

theorem single_response_id:
  assumes "Middleware env n c = Next body w"
  shows "id' w = ''chatcmpl-'' @ fmt_d n \<and>
         (\<exists>req. ShouldBindJSON env (Request_Body c) = Inr req \<and> stream w = Request.Stream req) \<and>
         id' (Writes env w calls) = id' w \<and>
         stream (Writes env w calls) = stream w \<and>
         (\<exists>out. Body (ResponseWriter (Writes env w calls)) = Body (Writer c) @ out \<and>
            (\<forall>p \<in> set out.
               (\<exists>r. Marshal_Completion env (toCompletion (id' w) r) = Some p \<and>
                     Completion.Id (toCompletion (id' w) r) = id' w)
             \<or> (\<exists>now r d. Marshal_Chunk env (toChunk now (id' w) r) = Some d \<and>
                     p = sse_frame d \<and> Chunk.Id (toChunk now (id' w) r) = id' w)
             \<or> p = done_frame
             \<or> (\<exists>e. Marshal_ErrorResponse env e = Some p)))"
proof -
  from Middleware_Next [OF assms] obtain req where
    b: "ShouldBindJSON env (Request_Body c) = Inr req" and
    w: "w = \<lparr>stream = Request.Stream req, id' = ''chatcmpl-'' @ fmt_d n, ResponseWriter = Writer c\<rparr>"
    by blast
  let ?P = "\<lambda>p. (\<exists>r. Marshal_Completion env (toCompletion (id' w) r) = Some p \<and>
                     Completion.Id (toCompletion (id' w) r) = id' w)
             \<or> (\<exists>now r d. Marshal_Chunk env (toChunk now (id' w) r) = Some d \<and>
                     p = sse_frame d \<and> Chunk.Id (toChunk now (id' w) r) = id' w)
             \<or> p = done_frame
             \<or> (\<exists>e. Marshal_ErrorResponse env e = Some p)"
  have "\<exists>out. Body (ResponseWriter (Writes env w calls)) = Body (ResponseWriter w) @ out \<and>
               (\<forall>p \<in> set out. ?P p) \<and>
               id' (Writes env w calls) = id' w \<and>
               stream (Writes env w calls) = stream w"
  proof (rule Writes_out [where P = ?P])
    fix r d assume "Marshal_Completion env (toCompletion (id' w) r) = Some d"
    then show "?P d" by (auto simp: toCompletion_def)
  next
    fix now r d assume "Marshal_Chunk env (toChunk now (id' w) r) = Some d"
    then show "?P (sse_frame d)" by (auto simp: toChunk_def)
  next
    show "?P done_frame" by simp
  next
    fix e d assume "Marshal_ErrorResponse env e = Some d"
    then show "?P d" by auto
  qed
  then obtain out where o: "Body (ResponseWriter (Writes env w calls)) = Body (ResponseWriter w) @ out"
    "\<forall>p \<in> set out. ?P p" "id' (Writes env w calls) = id' w" "stream (Writes env w calls) = stream w"
    by blast
  have bw: "Body (ResponseWriter w) = Body (Writer c)" using w by simp
  have "id' w = ''chatcmpl-'' @ fmt_d n" using w by simp
  moreover have "\<exists>req. ShouldBindJSON env (Request_Body c) = Inr req \<and> stream w = Request.Stream req"
    using b w by auto
  moreover have "\<exists>out. Body (ResponseWriter (Writes env w calls)) = Body (Writer c) @ out \<and>
            (\<forall>p \<in> set out. ?P p)"
    using o(1,2) unfolding bw by blast
  ultimately show ?thesis using o(3,4) by blast
qed

theorem single_response_id_witness:
  "Middleware demo_env 7 \<lparr>Request_Body = ''chat'', Writer = ResponseWriter (demo_writer True StatusOK)\<rparr>
     = Next ''m'' (demo_writer True StatusOK) \<and>
   id' (demo_writer True StatusOK) = ''chatcmpl-7'' \<and>
   id' (Writes demo_env (demo_writer True StatusOK) [(StatusOK, 1, ''+Hel''), (StatusOK, 2, ''.lo'')])
     = ''chatcmpl-7'' \<and>
   Body (ResponseWriter (Writes demo_env (demo_writer True StatusOK)
           [(StatusOK, 1, ''+Hel''), (StatusOK, 2, ''.lo'')]))
     = [sse_frame ''chatcmpl-7:Hel'', sse_frame ''chatcmpl-7:lo'', done_frame]"
proof -
  let ?c = "\<lparr>Request_Body = ''chat'', Writer = ResponseWriter (demo_writer True StatusOK)\<rparr>"
  have m: "Middleware demo_env 7 ?c = Next ''m'' (demo_writer True StatusOK)"
    by (simp add: Middleware_def ShouldBindJSON_def demo_env_def demo_writer_def decode_simps
          fromRequest_def fmt_d.simps)
  have b: "Body (ResponseWriter (Writes demo_env (demo_writer True StatusOK)
           [(StatusOK, 1, ''+Hel''), (StatusOK, 2, ''.lo'')]))
     = [sse_frame ''chatcmpl-7:Hel'', sse_frame ''chatcmpl-7:lo'', done_frame]"
    by (simp add: Write_def Write_chunk_def write_through_def ResponseWriter_Write_def
          set_header_def Header_Set_def toChunk_def demo_env_def demo_writer_def)
  from single_response_id [OF m, of "[(StatusOK, 1, ''+Hel''), (StatusOK, 2, ''.lo'')]"] m b
  show ?thesis by (simp add: fmt_d.simps)
qed


subsection \<open>The middleware\<close>




end
